theory Spec2Isabelle
  imports Main "HOL-Library.Sublist"
begin

section \<open>Dynamic DNS reconciliation against PorkBun\<close>

text \<open>
  A shallow embedding of the three source files \<^verbatim>\<open>src/porkbunddns/porkbun.py\<close>,
  \<^verbatim>\<open>src/porkbunddns/ipify.py\<close> and \<^verbatim>\<open>src/updater.py\<close>.

  \<^item> Python strings are \<^typ>\<open>string\<close>; Python integers are \<^typ>\<open>int\<close> (unbounded).
    Characters are the 256 values of \<^typ>\<open>char\<close>; code points above 255 are not
    represented. The interpreter's optional limit on the number of digits accepted by
    the conversions between integers and strings is not represented either: the
    conversions are those of mathematical integers.
  \<^item> Every exception the code can raise is a value of the type \<open>error\<close>, and a fallible
    computation returns \<open>error + 'a\<close> with the exception on the left.
  \<^item> The network is a parameter: a function from the request that is sent to what comes
    back, \<open>None\<close> when the HTTP library raises because nothing came back (connection
    failure, timeout), \<open>Some response\<close> otherwise.
  \<^item> A method of a client object takes the object and returns a \<open>call\<close>: the result,
    the object as the method leaves it, and the requests the method sent, in order.
  \<^item> Debug logging is left out: the logging calls only format the request URL and the
    status code, and no control flow depends on them.
\<close>

subsection \<open>Exceptions\<close>

text \<open>
  \<^item> \<open>RequestException\<close>: raised by \<^verbatim>\<open>requests.get\<close> or \<^verbatim>\<open>requests.post\<close>
    when no response is obtained.
  \<^item> \<open>HTTPError status\<close>: raised by \<^verbatim>\<open>response.raise_for_status()\<close>.
  \<^item> \<open>SchemaError\<close>: raised by \<^verbatim>\<open>model_validate_json\<close> when the body is not JSON or
    does not have the shape of the model (missing field, wrong type, wrong literal).
  \<^item> \<open>RecordsLengthError\<close>: the \<^verbatim>\<open>ValueError("Records list must contain exactly one
    item")\<close> of \<^verbatim>\<open>check_records_length\<close>.
  \<^item> \<open>IntValueError\<close>: the \<^verbatim>\<open>ValueError\<close> of \<^verbatim>\<open>int(...)\<close> on a string that is not an
    integer literal.
  \<^item> \<open>IndexError\<close>: raised by \<^verbatim>\<open>self.records[0]\<close> on an empty list.
\<close>

datatype error =
    RequestException
  | HTTPError int
  | SchemaError
  | RecordsLengthError
  | IntValueError
  | IndexError

definition and_then :: "error + 'a \<Rightarrow> ('a \<Rightarrow> error + 'b) \<Rightarrow> error + 'b" where
  "and_then m f = (case m of Inl e \<Rightarrow> Inl e | Inr x \<Rightarrow> f x)"

subsection \<open>Python's \<^verbatim>\<open>str(int)\<close> and \<^verbatim>\<open>int(str)\<close>\<close>

text \<open>
  \<^verbatim>\<open>str(ttl)\<close> (porkbun.py, line 126) writes an integer in decimal, with a leading
  minus sign when it is negative. \<^verbatim>\<open>int(parsed.record.ttl)\<close> (porkbun.py, line 104)
  reads a string in base ten: white space around the literal is skipped, one sign is
  allowed, the digits may be grouped by single underscores, and anything else raises
  \<^verbatim>\<open>ValueError\<close>.
\<close>

definition is_digit :: "char \<Rightarrow> bool" where
  "is_digit c = (48 \<le> (of_char c :: nat) \<and> (of_char c :: nat) \<le> 57)"

definition digit_value :: "char \<Rightarrow> nat" where
  "digit_value c = of_char c - 48"

definition digit_char :: "nat \<Rightarrow> char" where
  "digit_char d = char_of (48 + d)"

definition is_space :: "char \<Rightarrow> bool" where
  "is_space c =
     (c \<in> set [CHR 0x09, CHR 0x0A, CHR 0x0B, CHR 0x0C, CHR 0x0D, CHR '' '', CHR 0x85, CHR 0xA0])"

fun nat_digits :: "nat \<Rightarrow> string" where
  "nat_digits n =
     (if n < 10 then [digit_char n] else nat_digits (n div 10) @ [digit_char (n mod 10)])"

declare nat_digits.simps [simp del]

definition python_str :: "int \<Rightarrow> string" where
  "python_str i = (if i < 0 then CHR ''-'' # nat_digits (nat (- i)) else nat_digits (nat i))"

definition digits_value :: "string \<Rightarrow> nat" where
  "digits_value ds = foldl (\<lambda>a c. 10 * a + digit_value c) 0 ds"

fun adjacent_underscores :: "string \<Rightarrow> bool" where
  "adjacent_underscores (a # b # cs) =
     ((a = CHR ''_'' \<and> b = CHR ''_'') \<or> adjacent_underscores (b # cs))"
| "adjacent_underscores _ = False"

definition split_sign :: "string \<Rightarrow> int \<times> string" where
  "split_sign s = (case s of
       [] \<Rightarrow> (1, [])
     | c # r \<Rightarrow> if c = CHR ''+'' then (1, r) else if c = CHR ''-'' then (- 1, r) else (1, s))"

definition python_int :: "string \<Rightarrow> error + int" where
  "python_int s =
    (let (sign, body) = split_sign (dropWhile is_space s);
         run = takeWhile (\<lambda>c. is_digit c \<or> c = CHR ''_'') body;
         rest = dropWhile (\<lambda>c. is_digit c \<or> c = CHR ''_'') body
     in if run \<noteq> [] \<and> hd run \<noteq> CHR ''_'' \<and> last run \<noteq> CHR ''_''
           \<and> \<not> adjacent_underscores run \<and> list_all is_space rest
        then Inr (sign * int (digits_value (filter is_digit run)))
        else Inl IntValueError)"

subsection \<open>JSON values, requests and responses\<close>

text \<open>
  A JSON object is the list of its members in the order of the text; a number keeps its
  literal. The body of a response is \<open>None\<close> when its bytes are not JSON text.
  A key that occurs twice in an object denotes its last value.
\<close>

datatype json_value =
    JNull
  | JBool bool
  | JNumber string
  | JString string
  | JArray "json_value list"
  | JObject "(string \<times> json_value) list"

datatype http_method = GET | POST

record request =
  verb :: http_method
  url :: string
  timeout :: int
  json :: "json_value option"

record response =
  status_code :: int
  content :: "json_value option"

type_synonym network = "request \<Rightarrow> response option"

definition raise_for_status :: "response \<Rightarrow> error + unit" where
  "raise_for_status r =
     (if 400 \<le> status_code r \<and> status_code r < 600
      then Inl (HTTPError (status_code r)) else Inr ())"

definition field :: "(string \<times> json_value) list \<Rightarrow> string \<Rightarrow> json_value option" where
  "field kvs k = map_of (rev kvs) k"

subsection \<open>Pydantic models\<close>

text \<open>
  A field annotated \<^verbatim>\<open>str\<close> accepts a JSON string only; a field annotated
  \<^verbatim>\<open>typing.Literal["A"]\<close> accepts that string only; members the model does not
  declare are ignored.
\<close>

definition str_field :: "(string \<times> json_value) list \<Rightarrow> string \<Rightarrow> error + string" where
  "str_field kvs k = (case field kvs k of Some (JString s) \<Rightarrow> Inr s | _ \<Rightarrow> Inl SchemaError)"

definition literal_field :: "(string \<times> json_value) list \<Rightarrow> string \<Rightarrow> string \<Rightarrow> error + string" where
  "literal_field kvs k lit =
     and_then (str_field kvs k) (\<lambda>s. if s = lit then Inr s else Inl SchemaError)"

text \<open>
  The class body of \<^verbatim>\<open>DNSARecordResponseModel\<close> (porkbun.py, lines 25 to 44) binds two
  names besides its fields. Decorators apply from the innermost outwards, so
  \<^verbatim>\<open>check_records_length\<close> is bound to a class method that wraps what
  \<^verbatim>\<open>pydantic.validator("records")\<close> returned for the function. When the model class
  is created, the validators of its fields are collected from the values of the class
  namespace: a value counts when it is itself what the validator decorator returned.
  A validator wrapped in something else is an ordinary attribute.
\<close>

datatype attribute =
    Function
  | Validator string attribute
  | ClassMethod attribute
  | Property attribute

fun collected_validator :: "attribute \<Rightarrow> string option" where
  "collected_validator (Validator fld _) = Some fld"
| "collected_validator _ = None"

definition validates :: "(string \<times> attribute) list \<Rightarrow> string \<Rightarrow> string \<Rightarrow> bool" where
  "validates namespace attr fld =
     (case map_of namespace attr of
        None \<Rightarrow> False
      | Some a \<Rightarrow> collected_validator a = Some fld)"

record DNSARecordModel =
  name :: string
  type :: string
  content :: string
  ttl :: string

record DNSARecordResponseModel =
  status :: string
  records :: "DNSARecordModel list"

definition DNSARecordModel_validate :: "json_value \<Rightarrow> error + DNSARecordModel" where
  "DNSARecordModel_validate j =
     (case j of
        JObject kvs \<Rightarrow>
          and_then (str_field kvs ''name'') (\<lambda>n.
          and_then (literal_field kvs ''type'' ''A'') (\<lambda>t.
          and_then (str_field kvs ''content'') (\<lambda>c.
          and_then (str_field kvs ''ttl'') (\<lambda>l.
            Inr \<lparr>name = n, type = t, DNSARecordModel.content = c, ttl = l\<rparr>))))
      | _ \<Rightarrow> Inl SchemaError)"

fun validate_records :: "json_value list \<Rightarrow> error + DNSARecordModel list" where
  "validate_records [] = Inr []"
| "validate_records (j # js) =
     and_then (DNSARecordModel_validate j) (\<lambda>r.
     and_then (validate_records js) (\<lambda>rs. Inr (r # rs)))"

definition records_field :: "(string \<times> json_value) list \<Rightarrow> error + DNSARecordModel list" where
  "records_field kvs =
     (case field kvs ''records'' of
        Some (JArray js) \<Rightarrow> validate_records js
      | _ \<Rightarrow> Inl SchemaError)"

definition check_records_length :: "DNSARecordModel list \<Rightarrow> error + DNSARecordModel list" where
  "check_records_length v = (if length v \<noteq> 1 then Inl RecordsLengthError else Inr v)"

definition DNSARecordResponseModel_namespace :: "(string \<times> attribute) list" where
  "DNSARecordResponseModel_namespace =
     [(''check_records_length'', ClassMethod (Validator ''records'' Function)),
      (''record'', Property Function)]"

definition model_validate ::
    "(string \<times> attribute) list \<Rightarrow> json_value \<Rightarrow> error + DNSARecordResponseModel" where
  "model_validate namespace j =
     (case j of
        JObject kvs \<Rightarrow>
          and_then (literal_field kvs ''status'' ''SUCCESS'') (\<lambda>s.
          and_then (records_field kvs) (\<lambda>rs.
          and_then (if validates namespace ''check_records_length'' ''records''
                    then check_records_length rs else Inr rs) (\<lambda>v.
            Inr \<lparr>status = s, records = v\<rparr>)))
      | _ \<Rightarrow> Inl SchemaError)"

definition DNSARecordResponseModel_model_validate_json ::
    "json_value option \<Rightarrow> error + DNSARecordResponseModel" where
  "DNSARecordResponseModel_model_validate_json body =
     (case body of
        None \<Rightarrow> Inl SchemaError
      | Some j \<Rightarrow> model_validate DNSARecordResponseModel_namespace j)"

definition DNSARecordResponseModel_record :: "DNSARecordResponseModel \<Rightarrow> error + DNSARecordModel" where
  "DNSARecordResponseModel_record m = (case records m of [] \<Rightarrow> Inl IndexError | r # _ \<Rightarrow> Inr r)"

subsection \<open>The PorkBun client (porkbun.py, lines 47 to 137)\<close>

text \<open>
  The optional arguments \<^verbatim>\<open>timeout: int = 10\<close> of the constructor and
  \<^verbatim>\<open>ttl: int = 600\<close> of \<^verbatim>\<open>update_a_record\<close> are options, \<open>None\<close> when the caller
  omits them. \<^verbatim>\<open>verbose\<close> only sets the level of the module's logger.
\<close>

record ARecord =
  ip :: string
  ttl :: int

record PorkBun =
  timeout :: int
  api_key :: string
  api_secret :: string

record ('a, 's) call =
  result :: "error + 'a"
  self :: 's
  sent :: "request list"

definition PORKBUN_API_GET_ENDPOINT :: "string \<Rightarrow> string" where
  "PORKBUN_API_GET_ENDPOINT domain =
     ''https://porkbun.com/api/json/v3/dns/retrieveByNameType/'' @ domain @ ''/A/''"

definition PORKBUN_API_EDIT_ENDPOINT :: "string \<Rightarrow> string" where
  "PORKBUN_API_EDIT_ENDPOINT domain =
     ''https://porkbun.com/api/json/v3/dns/editByNameType/'' @ domain @ ''/A/''"

definition PorkBun_init :: "string \<Rightarrow> string \<Rightarrow> int option \<Rightarrow> bool \<Rightarrow> PorkBun" where
  "PorkBun_init key secret tmo verbose =
     \<lparr>PorkBun.timeout = (case tmo of None \<Rightarrow> 10 | Some t \<Rightarrow> t),
      api_key = key, api_secret = secret\<rparr>"

definition get_a_record_request :: "PorkBun \<Rightarrow> string \<Rightarrow> request" where
  "get_a_record_request slf domain =
     \<lparr>verb = POST,
      url = PORKBUN_API_GET_ENDPOINT domain,
      request.timeout = PorkBun.timeout slf,
      json = Some (JObject [(''secretapikey'', JString (api_secret slf)),
                            (''apikey'', JString (api_key slf))])\<rparr>"

definition get_a_record :: "network \<Rightarrow> PorkBun \<Rightarrow> string \<Rightarrow> (ARecord, PorkBun) call" where
  "get_a_record net slf domain =
     \<lparr>result =
        (case net (get_a_record_request slf domain) of
           None \<Rightarrow> Inl RequestException
         | Some response \<Rightarrow>
            and_then (raise_for_status response) (\<lambda>_.
            and_then (DNSARecordResponseModel_model_validate_json (response.content response))
              (\<lambda>parsed.
            and_then (DNSARecordResponseModel_record parsed) (\<lambda>r.
            and_then (python_int (DNSARecordModel.ttl r)) (\<lambda>t.
              Inr \<lparr>ip = DNSARecordModel.content r, ttl = t\<rparr>))))),
      self = slf,
      sent = [get_a_record_request slf domain]\<rparr>"

definition update_a_record_request ::
    "PorkBun \<Rightarrow> string \<Rightarrow> string \<Rightarrow> int option \<Rightarrow> request" where
  "update_a_record_request slf domain ip_arg ttl_arg =
     \<lparr>verb = POST,
      url = PORKBUN_API_EDIT_ENDPOINT domain,
      request.timeout = PorkBun.timeout slf,
      json = Some (JObject [(''secretapikey'', JString (api_secret slf)),
                            (''apikey'', JString (api_key slf)),
                            (''content'', JString ip_arg),
                            (''ttl'', JString (python_str
                               (case ttl_arg of None \<Rightarrow> 600 | Some t \<Rightarrow> t)))])\<rparr>"

definition update_a_record ::
    "network \<Rightarrow> PorkBun \<Rightarrow> string \<Rightarrow> string \<Rightarrow> int option \<Rightarrow> (unit, PorkBun) call" where
  "update_a_record net slf domain ip_arg ttl_arg =
     \<lparr>result =
        (case net (update_a_record_request slf domain ip_arg ttl_arg) of
           None \<Rightarrow> Inl RequestException
         | Some response \<Rightarrow> raise_for_status response),
      self = slf,
      sent = [update_a_record_request slf domain ip_arg ttl_arg]\<rparr>"

subsection \<open>The IPify client (ipify.py)\<close>

record IPifyResponseModel =
  ip :: string

record IP =
  ip :: string

record IPify =
  timeout :: int

definition IPIFY_API_ENDPOINT :: string where
  "IPIFY_API_ENDPOINT = ''https://api.ipify.org/?format=json''"

definition IPifyResponseModel_model_validate_json ::
    "json_value option \<Rightarrow> error + IPifyResponseModel" where
  "IPifyResponseModel_model_validate_json body =
     (case body of
        Some (JObject kvs) \<Rightarrow>
          and_then (str_field kvs ''ip'') (\<lambda>s. Inr \<lparr>IPifyResponseModel.ip = s\<rparr>)
      | _ \<Rightarrow> Inl SchemaError)"

definition IPify_init :: "int option \<Rightarrow> bool \<Rightarrow> IPify" where
  "IPify_init tmo verbose = \<lparr>IPify.timeout = (case tmo of None \<Rightarrow> 10 | Some t \<Rightarrow> t)\<rparr>"

definition get_current_ip_request :: "IPify \<Rightarrow> request" where
  "get_current_ip_request slf =
     \<lparr>verb = GET, url = IPIFY_API_ENDPOINT, request.timeout = IPify.timeout slf, json = None\<rparr>"

definition get_current_ip :: "network \<Rightarrow> IPify \<Rightarrow> (IP, IPify) call" where
  "get_current_ip net slf =
     \<lparr>result =
        (case net (get_current_ip_request slf) of
           None \<Rightarrow> Inl RequestException
         | Some response \<Rightarrow>
            and_then (raise_for_status response) (\<lambda>_.
            and_then (IPifyResponseModel_model_validate_json (response.content response))
              (\<lambda>parsed. Inr \<lparr>IP.ip = IPifyResponseModel.ip parsed\<rparr>))),
      self = slf,
      sent = [get_current_ip_request slf]\<rparr>"

subsection \<open>The reconciliation pass (updater.py)\<close>

text \<open>
  \<open>args\<close> is the namespace \<^verbatim>\<open>parser.parse_args()\<close> returns, and \<open>parse_args\<close> fills in
  the defaults of the two options. The two reads are submitted to the thread pool
  before either result is awaited, and leaving the \<^verbatim>\<open>with\<close> block waits for both, so
  both requests are sent in every pass; the embedding lists the read of the record first.
  \<^verbatim>\<open>record_task.result()\<close> is evaluated before \<^verbatim>\<open>current_task.result()\<close>, so the
  exception of the record read is the one that surfaces when both reads fail.
\<close>

record args =
  domain :: string
  api_key :: string
  api_secret :: string
  ttl :: int
  timeout :: int
  verbose :: bool

definition parse_args ::
    "string \<Rightarrow> string \<Rightarrow> string \<Rightarrow> int option \<Rightarrow> int option \<Rightarrow> bool \<Rightarrow> args" where
  "parse_args d k s ttl_opt timeout_opt v =
     \<lparr>domain = d, args.api_key = k, args.api_secret = s,
      args.ttl = (case ttl_opt of None \<Rightarrow> 600 | Some t \<Rightarrow> t),
      args.timeout = (case timeout_opt of None \<Rightarrow> 10 | Some t \<Rightarrow> t),
      verbose = v\<rparr>"

definition ipify_connector :: "args \<Rightarrow> IPify" where
  "ipify_connector a = IPify_init (Some (args.timeout a)) (verbose a)"

definition porkbun_connector :: "args \<Rightarrow> PorkBun" where
  "porkbun_connector a =
     PorkBun_init (args.api_key a) (args.api_secret a) (Some (args.timeout a)) (verbose a)"

record pass =
  outcome :: "error + unit"
  porkbun_after :: PorkBun
  ipify_after :: IPify
  requests :: "request list"

definition updater :: "network \<Rightarrow> args \<Rightarrow> pass" where
  "updater net a =
     (let record_task = get_a_record net (porkbun_connector a) (domain a);
          current_task = get_current_ip net (ipify_connector a);
          porkbun1 = self record_task;
          ipify1 = self current_task;
          reads = sent record_task @ sent current_task
      in case result record_task of
           Inl e \<Rightarrow>
             \<lparr>outcome = Inl e, porkbun_after = porkbun1, ipify_after = ipify1,
              requests = reads\<rparr>
         | Inr rec \<Rightarrow>
          (case result current_task of
             Inl e \<Rightarrow>
               \<lparr>outcome = Inl e, porkbun_after = porkbun1, ipify_after = ipify1,
                requests = reads\<rparr>
           | Inr current \<Rightarrow>
               if IP.ip current \<noteq> ARecord.ip rec
               then (let upd = update_a_record net porkbun1 (domain a) (IP.ip current)
                                 (Some (args.ttl a))
                     in \<lparr>outcome = result upd, porkbun_after = self upd,
                         ipify_after = ipify1, requests = reads @ sent upd\<rparr>)
               else \<lparr>outcome = Inr (), porkbun_after = porkbun1, ipify_after = ipify1,
                     requests = reads\<rparr>))"

text \<open>
  An update call is a request \<^verbatim>\<open>update_a_record\<close> sends: a POST to the edit endpoint.
\<close>

definition is_update_request :: "request \<Rightarrow> bool" where
  "is_update_request r =
     (verb r = POST \<and> prefix ''https://porkbun.com/api/json/v3/dns/editByNameType/'' (url r))"

definition update_calls :: "pass \<Rightarrow> request list" where
  "update_calls p = filter is_update_request (requests p)"

subsection \<open>Example inputs\<close>

text \<open>
  The scenario of the documentation: domain \<^verbatim>\<open>example.com\<close>, no options on the command
  line. \<open>records_body\<close> builds a successful read response from the content and ttl of
  each record; \<open>example_net\<close> answers the record read, the IP lookup and the update.
  \<open>other_args\<close> is a command line with another domain and every option given;
  \<open>no_response_net\<close> is a network on which no request is answered.
\<close>

definition example_args :: args where
  "example_args = parse_args ''example.com'' ''key'' ''secret'' None None False"

definition records_body :: "(string \<times> string) list \<Rightarrow> json_value" where
  "records_body rs =
     JObject [(''status'', JString ''SUCCESS''),
              (''records'', JArray (map (\<lambda>(c, t).
                 JObject [(''name'', JString ''example.com''), (''type'', JString ''A''),
                          (''content'', JString c), (''ttl'', JString t)]) rs))]"

definition ok :: "json_value \<Rightarrow> response option" where
  "ok j = Some \<lparr>status_code = 200, content = Some j\<rparr>"

definition example_net :: "response option \<Rightarrow> response option \<Rightarrow> response option \<Rightarrow> network" where
  "example_net rd lk up r =
     (if verb r = GET then lk else if is_update_request r then up else rd)"

definition other_args :: args where
  "other_args = parse_args ''other.org'' ''key2'' ''secret2'' (Some 300) (Some 5) True"

definition no_response_net :: network where
  "no_response_net r = None"

section \<open>Basic facts\<close>

subsection \<open>Decimal strings\<close>

lemma digit_char_is_digit: "d < 10 \<Longrightarrow> is_digit (digit_char d)"
  by (simp add: is_digit_def digit_char_def)

lemma digit_value_digit_char: "d < 10 \<Longrightarrow> digit_value (digit_char d) = d"
  by (simp add: digit_value_def digit_char_def)

lemma is_digit_not_special:
  "is_digit c \<Longrightarrow> c \<noteq> CHR ''_'' \<and> c \<noteq> CHR ''+'' \<and> c \<noteq> CHR ''-'' \<and> \<not> is_space c"
  by (auto simp: is_digit_def is_space_def)

lemma nat_digits_all_digits: "list_all is_digit (nat_digits n)"
proof (induction n rule: nat_digits.induct)
  case (1 n)
  show ?case
  proof (cases "n < 10")
    case True
    then show ?thesis by (simp add: nat_digits.simps [of n] digit_char_is_digit)
  next
    case False
    with 1 show ?thesis by (simp add: nat_digits.simps [of n] digit_char_is_digit)
  qed
qed

lemma nat_digits_nonempty: "nat_digits n \<noteq> []"
  by (subst nat_digits.simps) simp

lemma digits_value_snoc: "digits_value (ds @ [c]) = 10 * digits_value ds + digit_value c"
  by (simp add: digits_value_def)

lemma digits_value_nat_digits: "digits_value (nat_digits n) = n"
proof (induction n rule: nat_digits.induct)
  case (1 n)
  show ?case
  proof (cases "n < 10")
    case True
    then show ?thesis
      by (simp add: nat_digits.simps [of n] digits_value_def digit_value_digit_char)
  next
    case False
    with 1 have "digits_value (nat_digits (n div 10)) = n div 10" by simp
    with False show ?thesis
      by (simp add: nat_digits.simps [of n] digits_value_snoc digit_value_digit_char)
  qed
qed

lemma all_digits_no_adjacent_underscores:
  "list_all is_digit ds \<Longrightarrow> \<not> adjacent_underscores ds"
  by (induction ds rule: adjacent_underscores.induct) (auto dest: is_digit_not_special)

lemma python_int_digits:
  assumes "ds \<noteq> []" and "list_all is_digit ds"
  shows "python_int ds = Inr (int (digits_value ds))"
    and "python_int (CHR ''-'' # ds) = Inr (- int (digits_value ds))"
proof -
  let ?p = "\<lambda>c. is_digit c \<or> c = CHR ''_''"
  from assms obtain d ds' where ds: "ds = d # ds'" by (cases ds) auto
  with assms have d: "is_digit d" by simp
  have tw: "takeWhile ?p ds = ds" and dw: "dropWhile ?p ds = []"
    using assms(2) by (simp_all add: list_all_iff)
  have flt: "filter is_digit ds = ds"
    using assms(2) by (simp add: list_all_iff)
  have sp: "dropWhile is_space ds = ds"
    using d is_digit_not_special [of d] by (simp add: ds)
  have sg: "split_sign ds = (1, ds)"
    using d is_digit_not_special [of d] by (simp add: ds split_sign_def)
  have hd: "hd ds \<noteq> CHR ''_''"
    using d is_digit_not_special [of d] by (simp add: ds)
  have "is_digit (last ds)"
    using assms by (metis last_in_set list_all_iff)
  then have lst: "last ds \<noteq> CHR ''_''"
    using is_digit_not_special by blast
  have adj: "\<not> adjacent_underscores ds"
    using assms(2) by (rule all_digits_no_adjacent_underscores)
  show "python_int ds = Inr (int (digits_value ds))"
    using assms(1) hd lst adj by (simp add: python_int_def sp sg tw dw flt)
  have sp': "\<not> is_space (CHR ''-'')"
    by (simp add: is_space_def)
  have sg': "split_sign (CHR ''-'' # ds) = (- 1, ds)"
    by (simp add: split_sign_def)
  show "python_int (CHR ''-'' # ds) = Inr (- int (digits_value ds))"
    using assms(1) hd lst adj by (simp add: python_int_def sp' sg' tw dw flt)
qed

lemma python_int_python_str: "python_int (python_str i) = Inr i"
proof (cases "i < 0")
  case True
  then show ?thesis
    using python_int_digits(2) [OF nat_digits_nonempty nat_digits_all_digits, of "nat (- i)"]
    by (simp add: python_str_def digits_value_nat_digits)
next
  case False
  then show ?thesis
    using python_int_digits(1) [OF nat_digits_nonempty nat_digits_all_digits, of "nat i"]
    by (simp add: python_str_def digits_value_nat_digits)
qed

lemma python_str_inj: "python_str a = python_str b \<Longrightarrow> a = b"
proof -
  assume "python_str a = python_str b"
  then have "python_int (python_str a) = python_int (python_str b)" by simp
  then show "a = b" by (simp add: python_int_python_str)
qed

lemma python_int_error: "python_int s = Inl e \<Longrightarrow> e = IntValueError"
  by (auto simp: python_int_def Let_def split: prod.splits if_splits)

subsection \<open>Results and validation\<close>

lemma and_then_Inl [simp]: "and_then (Inl e) f = Inl e"
  by (simp add: and_then_def)

lemma and_then_Inr [simp]: "and_then (Inr x) f = f x"
  by (simp add: and_then_def)

lemma and_then_eq_Inr:
  "and_then m f = Inr y \<longleftrightarrow> (\<exists>x. m = Inr x \<and> f x = Inr y)"
  by (cases m) simp_all

lemma raise_for_status_ok:
  "\<not> (400 \<le> status_code resp \<and> status_code resp < 600) \<Longrightarrow> raise_for_status resp = Inr ()"
  by (simp add: raise_for_status_def)

lemma raise_for_status_failure:
  "400 \<le> status_code resp \<Longrightarrow> status_code resp < 600
     \<Longrightarrow> raise_for_status resp = Inl (HTTPError (status_code resp))"
  by (simp add: raise_for_status_def)

lemma str_field_string: "field kvs k = Some (JString s) \<Longrightarrow> str_field kvs k = Inr s"
  by (simp add: str_field_def)

lemma str_field_missing: "field kvs k = None \<Longrightarrow> str_field kvs k = Inl SchemaError"
  by (simp add: str_field_def)

lemma str_field_error: "str_field kvs k = Inl e \<Longrightarrow> e = SchemaError"
  by (auto simp: str_field_def split: option.splits json_value.splits)

lemma str_field_Inr: "str_field kvs k = Inr s \<Longrightarrow> field kvs k = Some (JString s)"
  by (auto simp: str_field_def split: option.splits json_value.splits)

lemma literal_field_match:
  "field kvs k = Some (JString lit) \<Longrightarrow> literal_field kvs k lit = Inr lit"
  by (simp add: literal_field_def str_field_string)

lemma literal_field_mismatch:
  "field kvs k = Some (JString s) \<Longrightarrow> s \<noteq> lit \<Longrightarrow> literal_field kvs k lit = Inl SchemaError"
  by (simp add: literal_field_def str_field_string)

lemma validator_not_collected:
  "\<not> validates DNSARecordResponseModel_namespace ''check_records_length'' ''records''"
  by (simp add: validates_def DNSARecordResponseModel_namespace_def)

lemma validator_collected_when_outermost:
  "validates [(''check_records_length'', Validator ''records'' (ClassMethod Function))]
     ''check_records_length'' ''records''"
  by (simp add: validates_def)

lemma DNSARecordModel_validate_ok:
  assumes "field rkvs ''name'' = Some (JString nm)"
    and "field rkvs ''type'' = Some (JString ''A'')"
    and "field rkvs ''content'' = Some (JString c)"
    and "field rkvs ''ttl'' = Some (JString t)"
  shows "DNSARecordModel_validate (JObject rkvs) =
           Inr \<lparr>name = nm, type = ''A'', DNSARecordModel.content = c, ttl = t\<rparr>"
  using assms by (simp add: DNSARecordModel_validate_def str_field_string literal_field_match)

lemma literal_field_error: "literal_field kvs k lit = Inl e \<Longrightarrow> e = SchemaError"
  by (cases "str_field kvs k") (auto simp: literal_field_def dest: str_field_error split: if_splits)

lemma literal_field_Inr: "literal_field kvs k lit = Inr s \<Longrightarrow> field kvs k = Some (JString lit)"
  by (cases "str_field kvs k") (auto simp: literal_field_def dest: str_field_Inr split: if_splits)

lemma DNSARecordModel_validate_error: "DNSARecordModel_validate j = Inl e \<Longrightarrow> e = SchemaError"
proof (cases j)
  case (JObject kvs)
  assume "DNSARecordModel_validate j = Inl e"
  with JObject show ?thesis
    by (cases "str_field kvs ''name''"; cases "literal_field kvs ''type'' ''A''";
        cases "str_field kvs ''content''"; cases "str_field kvs ''ttl''")
       (auto simp: DNSARecordModel_validate_def dest: str_field_error literal_field_error)
qed (simp_all add: DNSARecordModel_validate_def)

lemma DNSARecordModel_validate_Inr:
  assumes "DNSARecordModel_validate (JObject kvs) = Inr r"
  shows "field kvs ''type'' = Some (JString ''A'')"
    and "field kvs ''ttl'' = Some (JString (DNSARecordModel.ttl r))"
    and "field kvs ''content'' = Some (JString (DNSARecordModel.content r))"
  using assms
  by (auto simp: DNSARecordModel_validate_def and_then_eq_Inr
        dest: str_field_Inr literal_field_Inr)

lemma validate_records_error: "validate_records js = Inl e \<Longrightarrow> e = SchemaError"
proof (induction js arbitrary: e)
  case Nil
  then show ?case by simp
next
  case (Cons j js)
  show ?case
  proof (cases "DNSARecordModel_validate j")
    case (Inl e')
    with Cons.prems show ?thesis by (auto dest: DNSARecordModel_validate_error)
  next
    case (Inr r)
    with Cons show ?thesis by (cases "validate_records js") auto
  qed
qed

lemma records_field_error: "records_field kvs = Inl e \<Longrightarrow> e = SchemaError"
  by (auto simp: records_field_def dest: validate_records_error
        split: option.splits json_value.splits)

lemma model_validate_json_error:
  assumes "DNSARecordResponseModel_model_validate_json body = Inl e"
  shows "e = SchemaError"
proof (cases body)
  case None
  with assms show ?thesis by (simp add: DNSARecordResponseModel_model_validate_json_def)
next
  case (Some j)
  show ?thesis
  proof (cases j)
    case (JObject kvs)
    with assms Some show ?thesis
      by (cases "literal_field kvs ''status'' ''SUCCESS''"; cases "records_field kvs")
         (auto simp: DNSARecordResponseModel_model_validate_json_def model_validate_def
            validator_not_collected dest: literal_field_error records_field_error)
  qed (use assms Some in
        \<open>simp_all add: DNSARecordResponseModel_model_validate_json_def model_validate_def\<close>)
qed

lemma model_validate_json_Inr:
  assumes "DNSARecordResponseModel_model_validate_json (Some (JObject kvs)) = Inr m"
  shows "field kvs ''status'' = Some (JString ''SUCCESS'')"
    and "records_field kvs = Inr (records m)"
  using assms
  by (auto simp: DNSARecordResponseModel_model_validate_json_def model_validate_def
        validator_not_collected and_then_eq_Inr dest: literal_field_Inr)

lemma model_validate_json_records:
  assumes "field kvs ''status'' = Some (JString ''SUCCESS'')"
    and "field kvs ''records'' = Some (JArray js)"
    and "validate_records js = Inr rs"
  shows "DNSARecordResponseModel_model_validate_json (Some (JObject kvs)) =
           Inr \<lparr>status = ''SUCCESS'', records = rs\<rparr>"
  using assms
  by (simp add: DNSARecordResponseModel_model_validate_json_def model_validate_def
        validator_not_collected literal_field_match records_field_def)

subsection \<open>The client operations\<close>

lemma get_a_record_call [simp]:
  "self (get_a_record net slf d) = slf"
  "sent (get_a_record net slf d) = [get_a_record_request slf d]"
  by (simp_all add: get_a_record_def)

lemma get_current_ip_call [simp]:
  "self (get_current_ip net slf) = slf"
  "sent (get_current_ip net slf) = [get_current_ip_request slf]"
  by (simp_all add: get_current_ip_def)

lemma update_a_record_call [simp]:
  "self (update_a_record net slf d i t) = slf"
  "sent (update_a_record net slf d i t) = [update_a_record_request slf d i t]"
  by (simp_all add: update_a_record_def)

lemma read_requests_are_not_updates [simp]:
  "\<not> is_update_request (get_a_record_request slf d)"
  "\<not> is_update_request (get_current_ip_request ipf)"
  by (simp_all add: is_update_request_def get_a_record_request_def get_current_ip_request_def
        PORKBUN_API_GET_ENDPOINT_def)

lemma update_request_is_update [simp]:
  "is_update_request (update_a_record_request slf d i t)"
  by (simp add: is_update_request_def update_a_record_request_def PORKBUN_API_EDIT_ENDPOINT_def)

lemma get_a_record_parsed:
  assumes "net (get_a_record_request slf d) = Some resp"
    and "\<not> (400 \<le> status_code resp \<and> status_code resp < 600)"
    and "DNSARecordResponseModel_model_validate_json (response.content resp) = Inr parsed"
    and "records parsed = r # rs"
  shows "result (get_a_record net slf d) =
           and_then (python_int (DNSARecordModel.ttl r))
             (\<lambda>t. Inr \<lparr>ARecord.ip = DNSARecordModel.content r, ttl = t\<rparr>)"
  using assms
  by (simp add: get_a_record_def raise_for_status_ok DNSARecordResponseModel_record_def)

lemma get_a_record_single:
  assumes "net (get_a_record_request slf d) = Some resp"
    and "\<not> (400 \<le> status_code resp \<and> status_code resp < 600)"
    and "response.content resp = Some (JObject kvs)"
    and "field kvs ''status'' = Some (JString ''SUCCESS'')"
    and "field kvs ''records'' = Some (JArray [JObject rkvs])"
    and "field rkvs ''name'' = Some (JString nm)"
    and "field rkvs ''type'' = Some (JString ''A'')"
    and "field rkvs ''content'' = Some (JString c)"
    and "field rkvs ''ttl'' = Some (JString t)"
  shows "result (get_a_record net slf d) =
           and_then (python_int t) (\<lambda>t. Inr \<lparr>ARecord.ip = c, ttl = t\<rparr>)"
proof -
  let ?r = "\<lparr>name = nm, type = ''A'', DNSARecordModel.content = c, ttl = t\<rparr>"
  have "validate_records [JObject rkvs] = Inr [?r]"
    by (simp add: DNSARecordModel_validate_ok [OF assms(6-9)])
  from model_validate_json_records [OF assms(4,5) this]
  have "DNSARecordResponseModel_model_validate_json (response.content resp) =
          Inr \<lparr>status = ''SUCCESS'', records = [?r]\<rparr>"
    by (simp add: assms(3))
  from get_a_record_parsed [where net = net, OF assms(1,2) this, of ?r "[]"] show ?thesis by simp
qed

lemma update_request_ttl:
  "\<exists>kvs. json (update_a_record_request slf d i (Some t)) = Some (JObject kvs)
         \<and> field kvs ''ttl'' = Some (JString (python_str t))"
  by (simp add: update_a_record_request_def field_def)

lemma get_current_ip_success:
  assumes "net (get_current_ip_request slf) = Some resp"
    and "\<not> (400 \<le> status_code resp \<and> status_code resp < 600)"
    and "response.content resp = Some (JObject kvs)"
    and "field kvs ''ip'' = Some (JString s)"
  shows "result (get_current_ip net slf) = Inr \<lparr>IP.ip = s\<rparr>"
  using assms
  by (simp add: get_current_ip_def raise_for_status_ok IPifyResponseModel_model_validate_json_def
        str_field_string)

lemma get_current_ip_success_only:
  assumes "result (get_current_ip net slf) = Inr x"
  shows "\<exists>resp kvs. net (get_current_ip_request slf) = Some resp
           \<and> \<not> (400 \<le> status_code resp \<and> status_code resp < 600)
           \<and> response.content resp = Some (JObject kvs)
           \<and> field kvs ''ip'' = Some (JString (IP.ip x))"
proof -
  from assms obtain resp where resp: "net (get_current_ip_request slf) = Some resp"
    by (auto simp: get_current_ip_def split: option.splits)
  with assms have st: "\<not> (400 \<le> status_code resp \<and> status_code resp < 600)"
    by (auto simp: get_current_ip_def raise_for_status_def split: if_splits)
  with assms resp obtain parsed where
    p: "IPifyResponseModel_model_validate_json (response.content resp) = Inr parsed"
    and x: "x = \<lparr>IP.ip = IPifyResponseModel.ip parsed\<rparr>"
    by (auto simp: get_current_ip_def raise_for_status_ok and_then_eq_Inr)
  from p obtain kvs where c: "response.content resp = Some (JObject kvs)"
    and s: "str_field kvs ''ip'' = Inr (IPifyResponseModel.ip parsed)"
    by (auto simp: IPifyResponseModel_model_validate_json_def and_then_eq_Inr
          split: option.splits json_value.splits)
  from str_field_Inr [OF s] x have "field kvs ''ip'' = Some (JString (IP.ip x))" by simp
  with resp st c show ?thesis by blast
qed

lemma get_current_ip_transport_failure:
  "net (get_current_ip_request slf) = None \<Longrightarrow> result (get_current_ip net slf) = Inl RequestException"
  by (simp add: get_current_ip_def)

lemma get_current_ip_http_failure:
  "net (get_current_ip_request slf) = Some resp \<Longrightarrow> 400 \<le> status_code resp
     \<Longrightarrow> status_code resp < 600
     \<Longrightarrow> result (get_current_ip net slf) = Inl (HTTPError (status_code resp))"
  by (simp add: get_current_ip_def raise_for_status_failure)

lemma get_current_ip_missing_field:
  assumes "net (get_current_ip_request slf) = Some resp"
    and "\<not> (400 \<le> status_code resp \<and> status_code resp < 600)"
    and "response.content resp = Some (JObject kvs)"
    and "field kvs ''ip'' = None"
  shows "result (get_current_ip net slf) = Inl SchemaError"
  using assms
  by (simp add: get_current_ip_def raise_for_status_ok IPifyResponseModel_model_validate_json_def
        str_field_missing)

lemma update_a_record_result:
  "net (update_a_record_request slf d i t) = Some resp
     \<Longrightarrow> result (update_a_record net slf d i t) = raise_for_status resp"
  by (simp add: update_a_record_def)

lemma update_a_record_request_inj:
  "(update_a_record_request slf d i (Some t) = update_a_record_request slf d' i' (Some t'))
     = (d = d' \<and> i = i' \<and> t = t')"
  by (auto simp: update_a_record_request_def PORKBUN_API_EDIT_ENDPOINT_def dest: python_str_inj)

subsection \<open>The pass, case by case\<close>

lemma updater_read_failure:
  assumes "result (get_a_record net (porkbun_connector a) (domain a)) = Inl e"
  shows "outcome (updater net a) = Inl e"
    and "requests (updater net a) =
           [get_a_record_request (porkbun_connector a) (domain a),
            get_current_ip_request (ipify_connector a)]"
  using assms by (simp_all add: updater_def Let_def)

lemma updater_lookup_failure:
  assumes "result (get_a_record net (porkbun_connector a) (domain a)) = Inr rec"
    and "result (get_current_ip net (ipify_connector a)) = Inl e"
  shows "outcome (updater net a) = Inl e"
    and "requests (updater net a) =
           [get_a_record_request (porkbun_connector a) (domain a),
            get_current_ip_request (ipify_connector a)]"
  using assms by (simp_all add: updater_def Let_def)

lemma updater_same_ip:
  assumes "result (get_a_record net (porkbun_connector a) (domain a)) = Inr rec"
    and "result (get_current_ip net (ipify_connector a)) = Inr current"
    and "IP.ip current = ARecord.ip rec"
  shows "outcome (updater net a) = Inr ()"
    and "requests (updater net a) =
           [get_a_record_request (porkbun_connector a) (domain a),
            get_current_ip_request (ipify_connector a)]"
  using assms by (simp_all add: updater_def Let_def)

lemma updater_other_ip:
  assumes "result (get_a_record net (porkbun_connector a) (domain a)) = Inr rec"
    and "result (get_current_ip net (ipify_connector a)) = Inr current"
    and "IP.ip current \<noteq> ARecord.ip rec"
  shows "outcome (updater net a) =
           result (update_a_record net (porkbun_connector a) (domain a) (IP.ip current)
                    (Some (args.ttl a)))"
    and "requests (updater net a) =
           [get_a_record_request (porkbun_connector a) (domain a),
            get_current_ip_request (ipify_connector a),
            update_a_record_request (porkbun_connector a) (domain a) (IP.ip current)
              (Some (args.ttl a))]"
  using assms by (simp_all add: updater_def Let_def)

lemma updater_connectors:
  "porkbun_after (updater net a) = porkbun_connector a"
  "ipify_after (updater net a) = ipify_connector a"
  by (simp_all add: updater_def Let_def split: sum.splits)

text \<open>
  The comparison is on the two strings as they were reported: two spellings of one
  address are different strings, and the record is rewritten.
\<close>

lemma textual_comparison_example:
  "update_calls (updater
       (example_net (ok (records_body [(''1.2.3.4'', ''600'')]))
          (ok (JObject [(''ip'', JString ''1.2.3.04'')])) (ok JNull))
       example_args)
     = [update_a_record_request (porkbun_connector example_args) ''example.com'' ''1.2.3.04''
          (Some 600)]"
  by code_simp

section \<open>The reconciliation pass\<close>

text \<open>
  Claim C1. In every pass in which both reads succeed and the IP string that was looked
  up differs from the IP string of the DNS record, exactly one update call is issued,
  after the two reads: a POST to the edit endpoint, whose URL carries the domain of the
  command line and whose body carries the IP that was looked up as \<^verbatim>\<open>content\<close> and
  the decimal string of the configured TTL as \<^verbatim>\<open>ttl\<close>. That string reads back as the
  configured TTL, and the request is the one of no other domain, IP or TTL. The TTL of
  the record that was read does not occur in the request. The outcome of the pass is
  the outcome of the update. The configured TTL is the one the command line gives, and
  600 when it gives none; the domain is the one the command line gives.
\<close>

theorem differing_ip_issues_exactly_one_update:
  assumes "result (get_a_record net (porkbun_connector a) (domain a)) = Inr rec"
    and "result (get_current_ip net (ipify_connector a)) = Inr current"
    and "IP.ip current \<noteq> ARecord.ip rec"
  shows "update_calls (updater net a) =
           [\<lparr>verb = POST,
             url = ''https://porkbun.com/api/json/v3/dns/editByNameType/'' @ domain a @ ''/A/'',
             request.timeout = args.timeout a,
             json = Some (JObject [(''secretapikey'', JString (args.api_secret a)),
                                   (''apikey'', JString (args.api_key a)),
                                   (''content'', JString (IP.ip current)),
                                   (''ttl'', JString (python_str (args.ttl a)))])\<rparr>]
       \<and> python_int (python_str (args.ttl a)) = Inr (args.ttl a)
       \<and> requests (updater net a) =
           [get_a_record_request (porkbun_connector a) (domain a),
            get_current_ip_request (ipify_connector a),
            update_a_record_request (porkbun_connector a) (domain a) (IP.ip current)
              (Some (args.ttl a))]
       \<and> update_calls (updater net a) =
           [update_a_record_request (porkbun_connector a) (domain a) (IP.ip current)
              (Some (args.ttl a))]
       \<and> (update_a_record_request (porkbun_connector a) d' i' (Some t') =
            update_a_record_request (porkbun_connector a) (domain a) (IP.ip current)
              (Some (args.ttl a)))
          = (d' = domain a \<and> i' = IP.ip current \<and> t' = args.ttl a)
       \<and> outcome (updater net a) =
           result (update_a_record net (porkbun_connector a) (domain a) (IP.ip current)
                     (Some (args.ttl a)))
       \<and> args.ttl (parse_args d k s None tm v) = 600
       \<and> args.ttl (parse_args d k s (Some t) tm v) = t
       \<and> domain (parse_args d k s topt tm v) = d"
proof -
  let ?req = "update_a_record_request (porkbun_connector a) (domain a) (IP.ip current)
                (Some (args.ttl a))"
  note trace = updater_other_ip(2) [OF assms]
  have calls: "update_calls (updater net a) = [?req]"
    unfolding update_calls_def trace by simp
  have req: "?req =
           \<lparr>verb = POST,
            url = ''https://porkbun.com/api/json/v3/dns/editByNameType/'' @ domain a @ ''/A/'',
            request.timeout = args.timeout a,
            json = Some (JObject [(''secretapikey'', JString (args.api_secret a)),
                                  (''apikey'', JString (args.api_key a)),
                                  (''content'', JString (IP.ip current)),
                                  (''ttl'', JString (python_str (args.ttl a)))])\<rparr>"
    by (simp add: update_a_record_request_def porkbun_connector_def PorkBun_init_def
          PORKBUN_API_EDIT_ENDPOINT_def)
  have inj: "(update_a_record_request (porkbun_connector a) d' i' (Some t') = ?req)
               = (d' = domain a \<and> i' = IP.ip current \<and> t' = args.ttl a)"
    by (rule update_a_record_request_inj)
  have dflt: "args.ttl (parse_args d k s None tm v) = 600"
    "args.ttl (parse_args d k s (Some t) tm v) = t"
    "domain (parse_args d k s topt tm v) = d"
    by (simp_all add: parse_args_def)
  show ?thesis
    unfolding calls req [symmetric] inj
    using trace updater_other_ip(1) [OF assms] dflt python_int_python_str [of "args.ttl a"]
    by simp
qed

theorem differing_ip_issues_exactly_one_update_witness:
  "result (get_a_record
       (example_net (ok (records_body [(''1.2.3.4'', ''600'')]))
          (ok (JObject [(''ip'', JString ''5.6.7.8'')])) (ok JNull))
       (porkbun_connector other_args) (domain other_args))
     = Inr \<lparr>ARecord.ip = ''1.2.3.4'', ttl = 600\<rparr>
   \<and> result (get_current_ip
       (example_net (ok (records_body [(''1.2.3.4'', ''600'')]))
          (ok (JObject [(''ip'', JString ''5.6.7.8'')])) (ok JNull))
       (ipify_connector other_args))
     = Inr \<lparr>IP.ip = ''5.6.7.8''\<rparr>
   \<and> update_calls (updater
       (example_net (ok (records_body [(''1.2.3.4'', ''600'')]))
          (ok (JObject [(''ip'', JString ''5.6.7.8'')])) (ok JNull))
       other_args)
     = [\<lparr>verb = POST,
         url = ''https://porkbun.com/api/json/v3/dns/editByNameType/other.org/A/'',
         request.timeout = 5,
         json = Some (JObject [(''secretapikey'', JString ''secret2''),
                               (''apikey'', JString ''key2''),
                               (''content'', JString ''5.6.7.8''),
                               (''ttl'', JString ''300'')])\<rparr>]
   \<and> update_calls (updater
       (example_net (ok (records_body [(''1.2.3.4'', ''300'')]))
          (ok (JObject [(''ip'', JString ''5.6.7.8'')])) (ok JNull))
       example_args)
     = [\<lparr>verb = POST,
         url = ''https://porkbun.com/api/json/v3/dns/editByNameType/example.com/A/'',
         request.timeout = 10,
         json = Some (JObject [(''secretapikey'', JString ''secret''),
                               (''apikey'', JString ''key''),
                               (''content'', JString ''5.6.7.8''),
                               (''ttl'', JString ''600'')])\<rparr>]
   \<and> update_a_record_request (porkbun_connector other_args) ''example.com'' ''5.6.7.8''
         (Some 300)
     \<noteq> update_a_record_request (porkbun_connector other_args) ''other.org'' ''5.6.7.8''
         (Some 300)
   \<and> update_a_record_request (porkbun_connector other_args) ''other.org'' ''5.6.7.8''
         (Some 600)
     \<noteq> update_a_record_request (porkbun_connector other_args) ''other.org'' ''5.6.7.8''
         (Some 300)"
proof -
  let ?net = "example_net (ok (records_body [(''1.2.3.4'', ''600'')]))
                (ok (JObject [(''ip'', JString ''5.6.7.8'')])) (ok JNull)"
  let ?net' = "example_net (ok (records_body [(''1.2.3.4'', ''300'')]))
                (ok (JObject [(''ip'', JString ''5.6.7.8'')])) (ok JNull)"
  have r: "result (get_a_record ?net (porkbun_connector other_args) (domain other_args))
             = Inr \<lparr>ARecord.ip = ''1.2.3.4'', ttl = 600\<rparr>"
    by code_simp
  have c: "result (get_current_ip ?net (ipify_connector other_args))
             = Inr \<lparr>IP.ip = ''5.6.7.8''\<rparr>"
    by code_simp
  have r': "result (get_a_record ?net' (porkbun_connector example_args) (domain example_args))
             = Inr \<lparr>ARecord.ip = ''1.2.3.4'', ttl = 300\<rparr>"
    by code_simp
  have c': "result (get_current_ip ?net' (ipify_connector example_args))
             = Inr \<lparr>IP.ip = ''5.6.7.8''\<rparr>"
    by code_simp
  have d: "IP.ip \<lparr>IP.ip = ''5.6.7.8''\<rparr> \<noteq> ARecord.ip \<lparr>ARecord.ip = ''1.2.3.4'', ttl = 600\<rparr>"
    "IP.ip \<lparr>IP.ip = ''5.6.7.8''\<rparr> \<noteq> ARecord.ip \<lparr>ARecord.ip = ''1.2.3.4'', ttl = 300\<rparr>"
    by simp_all
  have e: "python_str 300 = ''300''" "python_str 600 = ''600''" by code_simp+
  have f: "args.ttl other_args = 300" "args.timeout other_args = 5"
     "args.api_key other_args = ''key2''" "args.api_secret other_args = ''secret2''"
     "domain other_args = ''other.org''"
     "args.ttl example_args = 600" "args.timeout example_args = 10"
     "args.api_key example_args = ''key''" "args.api_secret example_args = ''secret''"
     "domain example_args = ''example.com''"
    by (simp_all add: other_args_def example_args_def parse_args_def)
  note th = differing_ip_issues_exactly_one_update [OF r c d(1)]
  note th' = differing_ip_issues_exactly_one_update [OF r' c' d(2)]
  have a1: "update_calls (updater ?net other_args)
     = [\<lparr>verb = POST,
         url = ''https://porkbun.com/api/json/v3/dns/editByNameType/other.org/A/'',
         request.timeout = 5,
         json = Some (JObject [(''secretapikey'', JString ''secret2''),
                               (''apikey'', JString ''key2''),
                               (''content'', JString ''5.6.7.8''),
                               (''ttl'', JString ''300'')])\<rparr>]"
    using th [THEN conjunct1] by (simp add: e f)
  have a2: "update_calls (updater ?net' example_args)
     = [\<lparr>verb = POST,
         url = ''https://porkbun.com/api/json/v3/dns/editByNameType/example.com/A/'',
         request.timeout = 10,
         json = Some (JObject [(''secretapikey'', JString ''secret''),
                               (''apikey'', JString ''key''),
                               (''content'', JString ''5.6.7.8''),
                               (''ttl'', JString ''600'')])\<rparr>]"
    using th' [THEN conjunct1] by (simp add: e f)
  have a3: "update_a_record_request (porkbun_connector other_args) ''example.com'' ''5.6.7.8''
         (Some 300)
     \<noteq> update_a_record_request (porkbun_connector other_args) ''other.org'' ''5.6.7.8''
         (Some 300)"
    using th [THEN conjunct2, THEN conjunct2, THEN conjunct2, THEN conjunct2, THEN conjunct1,
              of "''example.com''" "''5.6.7.8''" 300]
    by (simp add: f)
  have a4: "update_a_record_request (porkbun_connector other_args) ''other.org'' ''5.6.7.8''
         (Some 600)
     \<noteq> update_a_record_request (porkbun_connector other_args) ''other.org'' ''5.6.7.8''
         (Some 300)"
    using th [THEN conjunct2, THEN conjunct2, THEN conjunct2, THEN conjunct2, THEN conjunct1,
              of "''other.org''" "''5.6.7.8''" 600]
    by (simp add: f)
  from r c a1 a2 a3 a4 show ?thesis by simp
qed

text \<open>
  Claim C2. In every pass in which both reads succeed and the IP string that was looked
  up equals the IP string of the DNS record, character by character, no update call is
  issued: the pass ends successfully after the two reads.
\<close>

theorem equal_ip_issues_no_update:
  assumes "result (get_a_record net (porkbun_connector a) (domain a)) = Inr rec"
    and "result (get_current_ip net (ipify_connector a)) = Inr current"
    and "IP.ip current = ARecord.ip rec"
  shows "update_calls (updater net a) = []
       \<and> outcome (updater net a) = Inr ()
       \<and> requests (updater net a) =
           [get_a_record_request (porkbun_connector a) (domain a),
            get_current_ip_request (ipify_connector a)]"
  unfolding update_calls_def updater_same_ip [OF assms] by simp

theorem equal_ip_issues_no_update_witness:
  "result (get_a_record
       (example_net (ok (records_body [(''1.2.3.4'', ''600'')]))
          (ok (JObject [(''ip'', JString ''1.2.3.4'')])) None)
       (porkbun_connector example_args) (domain example_args))
     = Inr \<lparr>ARecord.ip = ''1.2.3.4'', ttl = 600\<rparr>
   \<and> result (get_current_ip
       (example_net (ok (records_body [(''1.2.3.4'', ''600'')]))
          (ok (JObject [(''ip'', JString ''1.2.3.4'')])) None)
       (ipify_connector example_args))
     = Inr \<lparr>IP.ip = ''1.2.3.4''\<rparr>
   \<and> update_calls (updater
       (example_net (ok (records_body [(''1.2.3.4'', ''600'')]))
          (ok (JObject [(''ip'', JString ''1.2.3.4'')])) None)
       example_args) = []
   \<and> outcome (updater
       (example_net (ok (records_body [(''1.2.3.4'', ''600'')]))
          (ok (JObject [(''ip'', JString ''1.2.3.4'')])) None)
       example_args) = Inr ()"
proof -
  let ?net = "example_net (ok (records_body [(''1.2.3.4'', ''600'')]))
                (ok (JObject [(''ip'', JString ''1.2.3.4'')])) None"
  have r: "result (get_a_record ?net (porkbun_connector example_args) (domain example_args))
             = Inr \<lparr>ARecord.ip = ''1.2.3.4'', ttl = 600\<rparr>"
    by code_simp
  have c: "result (get_current_ip ?net (ipify_connector example_args))
             = Inr \<lparr>IP.ip = ''1.2.3.4''\<rparr>"
    by code_simp
  have d: "IP.ip \<lparr>IP.ip = ''1.2.3.4''\<rparr> = ARecord.ip \<lparr>ARecord.ip = ''1.2.3.4'', ttl = 600\<rparr>"
    by simp
  from equal_ip_issues_no_update [OF r c d] r c show ?thesis by simp
qed

text \<open>
  Claim C4. In every pass in which the read of the DNS record or the IP lookup fails, the
  pass fails and no update call is issued.
\<close>

theorem failed_read_aborts_pass_without_update:
  assumes "(\<exists>e. result (get_a_record net (porkbun_connector a) (domain a)) = Inl e)
         \<or> (\<exists>e. result (get_current_ip net (ipify_connector a)) = Inl e)"
  shows "(\<exists>e. outcome (updater net a) = Inl e) \<and> update_calls (updater net a) = []"
proof (cases "result (get_a_record net (porkbun_connector a) (domain a))")
  case (Inl e)
  show ?thesis
    unfolding update_calls_def updater_read_failure [OF Inl] by simp
next
  case (Inr rec)
  with assms obtain e where e: "result (get_current_ip net (ipify_connector a)) = Inl e"
    by auto
  show ?thesis
    unfolding update_calls_def updater_lookup_failure [OF Inr e] by simp
qed

theorem failed_read_aborts_pass_without_update_witness:
  "result (get_current_ip
       (example_net (ok (records_body [(''1.2.3.4'', ''600'')]))
          (Some \<lparr>status_code = 503, content = None\<rparr>) (ok JNull))
       (ipify_connector example_args)) = Inl (HTTPError 503)
   \<and> outcome (updater
       (example_net (ok (records_body [(''1.2.3.4'', ''600'')]))
          (Some \<lparr>status_code = 503, content = None\<rparr>) (ok JNull))
       example_args) = Inl (HTTPError 503)
   \<and> update_calls (updater
       (example_net (ok (records_body [(''1.2.3.4'', ''600'')]))
          (Some \<lparr>status_code = 503, content = None\<rparr>) (ok JNull))
       example_args) = []"
proof -
  let ?net = "example_net (ok (records_body [(''1.2.3.4'', ''600'')]))
                (Some \<lparr>status_code = 503, content = None\<rparr>) (ok JNull)"
  have c: "result (get_current_ip ?net (ipify_connector example_args)) = Inl (HTTPError 503)"
    by code_simp
  then have h: "(\<exists>e. result (get_a_record ?net (porkbun_connector example_args)
                        (domain example_args)) = Inl e)
              \<or> (\<exists>e. result (get_current_ip ?net (ipify_connector example_args)) = Inl e)"
    by blast
  have o: "outcome (updater ?net example_args) = Inl (HTTPError 503)"
    by code_simp
  from failed_read_aborts_pass_without_update [OF h] c o show ?thesis by simp
qed

section \<open>The record count\<close>

text \<open>
  Claim C3 says that a read response with no record or with two or more records makes
  \<^verbatim>\<open>get_a_record\<close> fail with the validation error of \<^verbatim>\<open>check_records_length\<close>, and
  that no update follows. The code does otherwise: with two records \<^verbatim>\<open>get_a_record\<close>
  returns the first one, and the pass goes on to update the record although the second
  record already holds the current address; with no record it fails with the
  \<^verbatim>\<open>IndexError\<close> of \<^verbatim>\<open>self.records[0]\<close>.
\<close>

theorem records_length_is_not_checked:
  "result (get_a_record (\<lambda>r. ok (records_body [(''1.2.3.4'', ''600''), (''9.9.9.9'', ''300'')]))
             (porkbun_connector example_args) ''example.com'')
     = Inr \<lparr>ARecord.ip = ''1.2.3.4'', ttl = 600\<rparr>
   \<and> update_calls (updater
         (example_net (ok (records_body [(''1.2.3.4'', ''600''), (''9.9.9.9'', ''300'')]))
            (ok (JObject [(''ip'', JString ''9.9.9.9'')])) (ok JNull))
         example_args)
     = [update_a_record_request (porkbun_connector example_args) ''example.com'' ''9.9.9.9''
          (Some 600)]
   \<and> result (get_a_record (\<lambda>r. ok (records_body [])) (porkbun_connector example_args)
               ''example.com'')
     = Inl IndexError"
  by code_simp

text \<open>
  The error of \<^verbatim>\<open>check_records_length\<close> is never the result of \<^verbatim>\<open>get_a_record\<close>.
  Had the validator decorator been the outermost one, a model with any other number of
  records than one would not have been built.
\<close>

lemma records_length_error_never_raised:
  "result (get_a_record net slf d) \<noteq> Inl RecordsLengthError"
proof
  assume a: "result (get_a_record net slf d) = Inl RecordsLengthError"
  then obtain resp where resp: "net (get_a_record_request slf d) = Some resp"
    by (auto simp: get_a_record_def split: option.splits)
  with a have st: "raise_for_status resp = Inr ()"
    by (cases "raise_for_status resp") (auto simp: get_a_record_def raise_for_status_def split: if_splits)
  show False
  proof (cases "DNSARecordResponseModel_model_validate_json (response.content resp)")
    case (Inl e)
    with a resp st model_validate_json_error [OF Inl] show False
      by (simp add: get_a_record_def)
  next
    case (Inr parsed)
    show False
    proof (cases "records parsed")
      case Nil
      with a resp st Inr show False
        by (simp add: get_a_record_def DNSARecordResponseModel_record_def)
    next
      case (Cons r rs)
      with a resp st Inr show False
        by (cases "python_int (DNSARecordModel.ttl r)")
           (auto simp: get_a_record_def DNSARecordResponseModel_record_def dest: python_int_error)
    qed
  qed
qed

lemma records_length_checked_when_collected:
  assumes "validates ns ''check_records_length'' ''records''"
    and "model_validate ns j = Inr m"
  shows "length (records m) = 1"
proof (cases j)
  case (JObject kvs)
  with assms show ?thesis
    by (auto simp: model_validate_def and_then_eq_Inr check_records_length_def split: if_splits)
qed (use assms in \<open>simp_all add: model_validate_def\<close>)

section \<open>The TTL on the wire\<close>

text \<open>
  Claim C5. For every read response that is accepted and whose single record carries the
  decimal string of an integer as its ttl, \<^verbatim>\<open>get_a_record\<close> returns a record with that
  integer as ttl; the same holds for every non-empty string of decimal digits and its
  decimal value. For every integer ttl, the request \<^verbatim>\<open>update_a_record\<close> sends carries
  the decimal string of that integer as \<^verbatim>\<open>ttl\<close>, and reading that string gives the
  integer back.
\<close>

theorem ttl_round_trip:
  "(\<forall>resp kvs rkvs nm c n.
        net (get_a_record_request slf d) = Some resp
      \<and> \<not> (400 \<le> status_code resp \<and> status_code resp < 600)
      \<and> response.content resp = Some (JObject kvs)
      \<and> field kvs ''status'' = Some (JString ''SUCCESS'')
      \<and> field kvs ''records'' = Some (JArray [JObject rkvs])
      \<and> field rkvs ''name'' = Some (JString nm)
      \<and> field rkvs ''type'' = Some (JString ''A'')
      \<and> field rkvs ''content'' = Some (JString c)
      \<and> field rkvs ''ttl'' = Some (JString (python_str n))
      \<longrightarrow> result (get_a_record net slf d) = Inr \<lparr>ARecord.ip = c, ttl = n\<rparr>)
   \<and> (\<forall>resp kvs rkvs nm c ds.
        net (get_a_record_request slf d) = Some resp
      \<and> \<not> (400 \<le> status_code resp \<and> status_code resp < 600)
      \<and> response.content resp = Some (JObject kvs)
      \<and> field kvs ''status'' = Some (JString ''SUCCESS'')
      \<and> field kvs ''records'' = Some (JArray [JObject rkvs])
      \<and> field rkvs ''name'' = Some (JString nm)
      \<and> field rkvs ''type'' = Some (JString ''A'')
      \<and> field rkvs ''content'' = Some (JString c)
      \<and> field rkvs ''ttl'' = Some (JString ds)
      \<and> ds \<noteq> [] \<and> list_all is_digit ds
      \<longrightarrow> result (get_a_record net slf d) =
            Inr \<lparr>ARecord.ip = c, ttl = int (digits_value ds)\<rparr>)
   \<and> (\<exists>kvs. json (update_a_record_request slf d i (Some t)) = Some (JObject kvs)
           \<and> field kvs ''ttl'' = Some (JString (python_str t)))
   \<and> sent (update_a_record net slf d i (Some t)) = [update_a_record_request slf d i (Some t)]
   \<and> python_int (python_str t) = Inr t"
proof -
  have a: "result (get_a_record net slf d) = Inr \<lparr>ARecord.ip = c, ttl = n\<rparr>"
    if "net (get_a_record_request slf d) = Some resp"
      "\<not> (400 \<le> status_code resp \<and> status_code resp < 600)"
      "response.content resp = Some (JObject kvs)"
      "field kvs ''status'' = Some (JString ''SUCCESS'')"
      "field kvs ''records'' = Some (JArray [JObject rkvs])"
      "field rkvs ''name'' = Some (JString nm)"
      "field rkvs ''type'' = Some (JString ''A'')"
      "field rkvs ''content'' = Some (JString c)"
      "field rkvs ''ttl'' = Some (JString (python_str n))"
    for resp kvs rkvs nm c n
    using get_a_record_single [where net = net, OF that] by (simp add: python_int_python_str)
  have b: "result (get_a_record net slf d) = Inr \<lparr>ARecord.ip = c, ttl = int (digits_value ds)\<rparr>"
    if "net (get_a_record_request slf d) = Some resp"
      "\<not> (400 \<le> status_code resp \<and> status_code resp < 600)"
      "response.content resp = Some (JObject kvs)"
      "field kvs ''status'' = Some (JString ''SUCCESS'')"
      "field kvs ''records'' = Some (JArray [JObject rkvs])"
      "field rkvs ''name'' = Some (JString nm)"
      "field rkvs ''type'' = Some (JString ''A'')"
      "field rkvs ''content'' = Some (JString c)"
      "field rkvs ''ttl'' = Some (JString ds)"
      "ds \<noteq> []" "list_all is_digit ds"
    for resp kvs rkvs nm c ds
    using get_a_record_single [where net = net, OF that(1-9)] python_int_digits(1) [OF that(10,11)]
    by simp
  from a b update_request_ttl [of slf d i t] python_int_python_str [of t] show ?thesis
    by (simp only: update_a_record_call) blast
qed

theorem ttl_round_trip_witness:
  "result (get_a_record (\<lambda>r. ok (records_body [(''1.2.3.4'', ''300'')]))
             (porkbun_connector example_args) ''example.com'')
     = Inr \<lparr>ARecord.ip = ''1.2.3.4'', ttl = 300\<rparr>
   \<and> result (get_a_record (\<lambda>r. ok (records_body [(''1.2.3.4'', ''0300'')]))
             (porkbun_connector example_args) ''example.com'')
     = Inr \<lparr>ARecord.ip = ''1.2.3.4'', ttl = 300\<rparr>
   \<and> python_str 300 = ''300''
   \<and> json (update_a_record_request (porkbun_connector example_args) ''example.com''
              ''5.6.7.8'' (Some 300))
     = Some (JObject [(''secretapikey'', JString ''secret''), (''apikey'', JString ''key''),
                      (''content'', JString ''5.6.7.8''), (''ttl'', JString ''300'')])
   \<and> python_int ''300'' = Inr 300"
proof -
  let ?net = "\<lambda>r::request. ok (records_body [(''1.2.3.4'', ''300'')])"
  let ?net' = "\<lambda>r::request. ok (records_body [(''1.2.3.4'', ''0300'')])"
  let ?slf = "porkbun_connector example_args"
  let ?rec = "\<lambda>t. [(''name'', JString ''example.com''), (''type'', JString ''A''),
                   (''content'', JString ''1.2.3.4''), (''ttl'', JString t)]"
  let ?body = "\<lambda>t. [(''status'', JString ''SUCCESS''), (''records'', JArray [JObject (?rec t)])]"
  have s: "python_str 300 = ''300''" by code_simp
  have v: "int (digits_value ''0300'') = 300" by code_simp
  have a: "result (get_a_record ?net ?slf ''example.com'')
             = Inr \<lparr>ARecord.ip = ''1.2.3.4'', ttl = 300\<rparr>"
    using ttl_round_trip [of ?net ?slf "''example.com''" "''5.6.7.8''" 300,
            THEN conjunct1, rule_format,
            of "\<lparr>status_code = 200, content = Some (JObject (?body ''300''))\<rparr>"
               "?body ''300''" "?rec ''300''" "''example.com''" "''1.2.3.4''" 300]
    by (simp add: ok_def records_body_def field_def s)
  have a': "result (get_a_record ?net' ?slf ''example.com'')
             = Inr \<lparr>ARecord.ip = ''1.2.3.4'', ttl = 300\<rparr>"
    using ttl_round_trip [of ?net' ?slf "''example.com''" "''5.6.7.8''" 300,
            THEN conjunct2, THEN conjunct1, rule_format,
            of "\<lparr>status_code = 200, content = Some (JObject (?body ''0300''))\<rparr>"
               "?body ''0300''" "?rec ''0300''" "''example.com''" "''1.2.3.4''" "''0300''"]
    by (simp add: ok_def records_body_def field_def is_digit_def v)
  have b: "python_int ''300'' = Inr 300"
    using ttl_round_trip [of ?net ?slf "''example.com''" "''5.6.7.8''" 300]
    by (simp add: s)
  have c: "json (update_a_record_request ?slf ''example.com'' ''5.6.7.8'' (Some 300))
     = Some (JObject [(''secretapikey'', JString ''secret''), (''apikey'', JString ''key''),
                      (''content'', JString ''5.6.7.8''), (''ttl'', JString ''300'')])"
    by (simp add: update_a_record_request_def s porkbun_connector_def PorkBun_init_def
          example_args_def parse_args_def)
  from a a' b c s show ?thesis by simp
qed

text \<open>
  Claim C10. Validation of a record accepts every string as ttl, and rejects a record
  whose ttl is not a string, a record whose type is not the string \<^verbatim>\<open>A\<close>, and a
  response whose status is not the string \<^verbatim>\<open>SUCCESS\<close>. The conversion to an integer
  comes after validation: for every response that passes the status check and
  validation, if the ttl string of the record that is used is not an integer literal,
  \<^verbatim>\<open>get_a_record\<close> fails with the error of the conversion and returns no record.
\<close>

theorem ttl_conversion_follows_schema_validation:
  "(\<forall>rkvs nm c t.
        field rkvs ''name'' = Some (JString nm)
      \<and> field rkvs ''type'' = Some (JString ''A'')
      \<and> field rkvs ''content'' = Some (JString c)
      \<and> field rkvs ''ttl'' = Some (JString t)
      \<longrightarrow> DNSARecordModel_validate (JObject rkvs) =
            Inr \<lparr>name = nm, type = ''A'', DNSARecordModel.content = c, ttl = t\<rparr>)
   \<and> (\<forall>rkvs. (\<forall>t. field rkvs ''ttl'' \<noteq> Some (JString t))
      \<longrightarrow> DNSARecordModel_validate (JObject rkvs) = Inl SchemaError)
   \<and> (\<forall>rkvs. field rkvs ''type'' \<noteq> Some (JString ''A'')
      \<longrightarrow> DNSARecordModel_validate (JObject rkvs) = Inl SchemaError)
   \<and> (\<forall>kvs. field kvs ''status'' \<noteq> Some (JString ''SUCCESS'')
      \<longrightarrow> DNSARecordResponseModel_model_validate_json (Some (JObject kvs)) = Inl SchemaError)
   \<and> (\<forall>resp parsed r rs e.
        net (get_a_record_request slf d) = Some resp
      \<and> \<not> (400 \<le> status_code resp \<and> status_code resp < 600)
      \<and> DNSARecordResponseModel_model_validate_json (response.content resp) = Inr parsed
      \<and> records parsed = r # rs
      \<and> python_int (DNSARecordModel.ttl r) = Inl e
      \<longrightarrow> result (get_a_record net slf d) = Inl IntValueError)"
proof (intro conjI allI impI)
  fix rkvs nm c t
  assume "field rkvs ''name'' = Some (JString nm)
      \<and> field rkvs ''type'' = Some (JString ''A'')
      \<and> field rkvs ''content'' = Some (JString c)
      \<and> field rkvs ''ttl'' = Some (JString t)"
  then show "DNSARecordModel_validate (JObject rkvs) =
            Inr \<lparr>name = nm, type = ''A'', DNSARecordModel.content = c, ttl = t\<rparr>"
    by (simp add: DNSARecordModel_validate_ok)
next
  fix rkvs
  assume h: "\<forall>t. field rkvs ''ttl'' \<noteq> Some (JString t)"
  show "DNSARecordModel_validate (JObject rkvs) = Inl SchemaError"
  proof (cases "DNSARecordModel_validate (JObject rkvs)")
    case (Inl e)
    then show ?thesis using DNSARecordModel_validate_error by blast
  next
    case (Inr r)
    from DNSARecordModel_validate_Inr(2) [OF Inr] h show ?thesis by blast
  qed
next
  fix rkvs
  assume h: "field rkvs ''type'' \<noteq> Some (JString ''A'')"
  show "DNSARecordModel_validate (JObject rkvs) = Inl SchemaError"
  proof (cases "DNSARecordModel_validate (JObject rkvs)")
    case (Inl e)
    then show ?thesis using DNSARecordModel_validate_error by blast
  next
    case (Inr r)
    from DNSARecordModel_validate_Inr(1) [OF Inr] h show ?thesis by blast
  qed
next
  fix kvs
  assume h: "field kvs ''status'' \<noteq> Some (JString ''SUCCESS'')"
  show "DNSARecordResponseModel_model_validate_json (Some (JObject kvs)) = Inl SchemaError"
  proof (cases "DNSARecordResponseModel_model_validate_json (Some (JObject kvs))")
    case (Inl e)
    then show ?thesis using model_validate_json_error by blast
  next
    case (Inr m)
    from model_validate_json_Inr(1) [OF Inr] h show ?thesis by blast
  qed
next
  fix resp parsed r rs e
  assume h: "net (get_a_record_request slf d) = Some resp
      \<and> \<not> (400 \<le> status_code resp \<and> status_code resp < 600)
      \<and> DNSARecordResponseModel_model_validate_json (response.content resp) = Inr parsed
      \<and> records parsed = r # rs
      \<and> python_int (DNSARecordModel.ttl r) = Inl e"
  then have "e = IntValueError" by (blast dest: python_int_error)
  with h get_a_record_parsed [where net = net, of slf d resp parsed r rs]
  show "result (get_a_record net slf d) = Inl IntValueError" by simp
qed

theorem ttl_conversion_follows_schema_validation_witness:
  "DNSARecordModel_validate
       (JObject [(''name'', JString ''example.com''), (''type'', JString ''A''),
                 (''content'', JString ''1.2.3.4''), (''ttl'', JString ''ten minutes'')])
     = Inr \<lparr>name = ''example.com'', type = ''A'', DNSARecordModel.content = ''1.2.3.4'',
            ttl = ''ten minutes''\<rparr>
   \<and> DNSARecordModel_validate
       (JObject [(''name'', JString ''example.com''), (''type'', JString ''A''),
                 (''content'', JString ''1.2.3.4''), (''ttl'', JNumber ''600'')])
     = Inl SchemaError
   \<and> DNSARecordModel_validate
       (JObject [(''name'', JString ''example.com''), (''type'', JString ''AAAA''),
                 (''content'', JString ''::1''), (''ttl'', JString ''600'')])
     = Inl SchemaError
   \<and> DNSARecordResponseModel_model_validate_json
       (Some (JObject [(''status'', JString ''ERROR''), (''records'', JArray [])]))
     = Inl SchemaError
   \<and> python_int ''ten minutes'' = Inl IntValueError
   \<and> result (get_a_record (\<lambda>r. ok (records_body [(''1.2.3.4'', ''ten minutes'')]))
               (porkbun_connector example_args) ''example.com'')
     = Inl IntValueError"
proof -
  let ?net = "\<lambda>r::request. ok (records_body [(''1.2.3.4'', ''ten minutes'')])"
  let ?slf = "porkbun_connector example_args"
  let ?r = "\<lparr>name = ''example.com'', type = ''A'', DNSARecordModel.content = ''1.2.3.4'',
             ttl = ''ten minutes''\<rparr>"
  note th = ttl_conversion_follows_schema_validation [of ?net ?slf "''example.com''"]
  have p: "python_int ''ten minutes'' = Inl IntValueError" by code_simp
  have v: "DNSARecordResponseModel_model_validate_json
             (Some (records_body [(''1.2.3.4'', ''ten minutes'')]))
           = Inr \<lparr>status = ''SUCCESS'', records = [?r]\<rparr>"
    by code_simp
  have a: "DNSARecordModel_validate
       (JObject [(''name'', JString ''example.com''), (''type'', JString ''A''),
                 (''content'', JString ''1.2.3.4''), (''ttl'', JString ''ten minutes'')])
     = Inr ?r"
    using th [THEN conjunct1, rule_format,
        of "[(''name'', JString ''example.com''), (''type'', JString ''A''),
             (''content'', JString ''1.2.3.4''), (''ttl'', JString ''ten minutes'')]"
           "''example.com''" "''1.2.3.4''" "''ten minutes''"]
    by (simp add: field_def)
  have b: "DNSARecordModel_validate
       (JObject [(''name'', JString ''example.com''), (''type'', JString ''A''),
                 (''content'', JString ''1.2.3.4''), (''ttl'', JNumber ''600'')])
     = Inl SchemaError"
    using th [THEN conjunct2, THEN conjunct1, rule_format,
        of "[(''name'', JString ''example.com''), (''type'', JString ''A''),
             (''content'', JString ''1.2.3.4''), (''ttl'', JNumber ''600'')]"]
    by (simp add: field_def)
  have c: "DNSARecordModel_validate
       (JObject [(''name'', JString ''example.com''), (''type'', JString ''AAAA''),
                 (''content'', JString ''::1''), (''ttl'', JString ''600'')])
     = Inl SchemaError"
    using th [THEN conjunct2, THEN conjunct2, THEN conjunct1, rule_format,
        of "[(''name'', JString ''example.com''), (''type'', JString ''AAAA''),
             (''content'', JString ''::1''), (''ttl'', JString ''600'')]"]
    by (simp add: field_def)
  have d: "DNSARecordResponseModel_model_validate_json
       (Some (JObject [(''status'', JString ''ERROR''), (''records'', JArray [])]))
     = Inl SchemaError"
    using th [THEN conjunct2, THEN conjunct2, THEN conjunct2, THEN conjunct1, rule_format,
        of "[(''status'', JString ''ERROR''), (''records'', JArray [])]"]
    by (simp add: field_def)
  have e: "result (get_a_record ?net ?slf ''example.com'') = Inl IntValueError"
    using th [THEN conjunct2, THEN conjunct2, THEN conjunct2, THEN conjunct2, rule_format,
        of "\<lparr>status_code = 200,
             content = Some (records_body [(''1.2.3.4'', ''ten minutes'')])\<rparr>"
           "\<lparr>status = ''SUCCESS'', records = [?r]\<rparr>" ?r "[]" IntValueError]
      v p
    by (simp add: ok_def)
  from a b c d p e show ?thesis by simp
qed

section \<open>The client operations\<close>

text \<open>
  Claim C6. Whenever the response to the lookup has a status outside 400 to 599 and a
  JSON object as body whose \<^verbatim>\<open>ip\<close> member is a string, \<^verbatim>\<open>get_current_ip\<close> returns
  exactly that string, whatever it is; and whenever \<^verbatim>\<open>get_current_ip\<close> returns an IP,
  it is the string of the \<^verbatim>\<open>ip\<close> member of such a response. The operation fails when
  no response is obtained, when the status is a failure status, and when the body has no
  \<^verbatim>\<open>ip\<close> member.
\<close>

theorem get_current_ip_returns_reported_string:
  "(\<forall>resp kvs s. net (get_current_ip_request slf) = Some resp
        \<and> \<not> (400 \<le> status_code resp \<and> status_code resp < 600)
        \<and> response.content resp = Some (JObject kvs)
        \<and> field kvs ''ip'' = Some (JString s)
      \<longrightarrow> result (get_current_ip net slf) = Inr \<lparr>IP.ip = s\<rparr>)
   \<and> (\<forall>x. result (get_current_ip net slf) = Inr x
      \<longrightarrow> (\<exists>resp kvs. net (get_current_ip_request slf) = Some resp
             \<and> \<not> (400 \<le> status_code resp \<and> status_code resp < 600)
             \<and> response.content resp = Some (JObject kvs)
             \<and> field kvs ''ip'' = Some (JString (IP.ip x))))
   \<and> (net (get_current_ip_request slf) = None
      \<longrightarrow> result (get_current_ip net slf) = Inl RequestException)
   \<and> (\<forall>resp. net (get_current_ip_request slf) = Some resp
        \<and> 400 \<le> status_code resp \<and> status_code resp < 600
      \<longrightarrow> result (get_current_ip net slf) = Inl (HTTPError (status_code resp)))
   \<and> (\<forall>resp kvs. net (get_current_ip_request slf) = Some resp
        \<and> \<not> (400 \<le> status_code resp \<and> status_code resp < 600)
        \<and> response.content resp = Some (JObject kvs)
        \<and> field kvs ''ip'' = None
      \<longrightarrow> result (get_current_ip net slf) = Inl SchemaError)"
  using get_current_ip_success [of net slf] get_current_ip_success_only [of net slf]
    get_current_ip_transport_failure [of net slf] get_current_ip_http_failure [of net slf]
    get_current_ip_missing_field [of net slf]
  by blast

theorem get_current_ip_returns_reported_string_witness:
  "result (get_current_ip (\<lambda>r. ok (JObject [(''ip'', JString ''010.0.0.1 '')]))
             (ipify_connector example_args)) = Inr \<lparr>IP.ip = ''010.0.0.1 ''\<rparr>
   \<and> result (get_current_ip (\<lambda>r. None) (ipify_connector example_args)) = Inl RequestException
   \<and> result (get_current_ip (\<lambda>r. Some \<lparr>status_code = 404, content = Some (JObject [(''ip'', JString ''1.2.3.4'')])\<rparr>)
             (ipify_connector example_args)) = Inl (HTTPError 404)
   \<and> result (get_current_ip (\<lambda>r. ok (JObject [(''address'', JString ''1.2.3.4'')]))
             (ipify_connector example_args)) = Inl SchemaError"
proof -
  let ?slf = "ipify_connector example_args"
  let ?n1 = "\<lambda>r::request. ok (JObject [(''ip'', JString ''010.0.0.1 '')])"
  let ?r3 = "\<lparr>status_code = 404, content = Some (JObject [(''ip'', JString ''1.2.3.4'')])\<rparr>"
  let ?n4 = "\<lambda>r::request. ok (JObject [(''address'', JString ''1.2.3.4'')])"
  have a: "result (get_current_ip ?n1 ?slf) = Inr \<lparr>IP.ip = ''010.0.0.1 ''\<rparr>"
    using get_current_ip_returns_reported_string [of ?n1 ?slf]
    by (simp add: ok_def field_def)
  have b: "result (get_current_ip (\<lambda>r. None) ?slf) = Inl RequestException"
    using get_current_ip_returns_reported_string [of "\<lambda>r. None" ?slf] by simp
  have c: "result (get_current_ip (\<lambda>r. Some ?r3) ?slf) = Inl (HTTPError 404)"
    using get_current_ip_returns_reported_string [of "\<lambda>r. Some ?r3" ?slf] by simp
  have d: "result (get_current_ip ?n4 ?slf) = Inl SchemaError"
    using get_current_ip_returns_reported_string [of ?n4 ?slf]
    by (simp add: ok_def field_def)
  from a b c d show ?thesis by simp
qed

text \<open>
  Claim C7 says that, after the request is sent, a failure HTTP status is the only way
  \<^verbatim>\<open>update_a_record\<close> fails. That is not so: when the request is sent and no
  response is obtained (the read times out, the connection drops), there is no status at
  all and the operation fails with the exception of the HTTP library.
\<close>

theorem update_a_record_fails_without_status_counterexample:
  "no_response_net
       (update_a_record_request (porkbun_connector example_args) ''example.com'' ''5.6.7.8''
          (Some 600)) = None
   \<and> sent (update_a_record no_response_net (porkbun_connector example_args) ''example.com''
             ''5.6.7.8'' (Some 600))
     = [\<lparr>verb = POST,
         url = ''https://porkbun.com/api/json/v3/dns/editByNameType/example.com/A/'',
         request.timeout = 10,
         json = Some (JObject [(''secretapikey'', JString ''secret''),
                               (''apikey'', JString ''key''),
                               (''content'', JString ''5.6.7.8''),
                               (''ttl'', JString ''600'')])\<rparr>]
   \<and> result (update_a_record no_response_net (porkbun_connector example_args) ''example.com''
               ''5.6.7.8'' (Some 600))
     = Inl RequestException"
  by code_simp

text \<open>
  Claim C7, amended. \<^verbatim>\<open>update_a_record\<close> never looks at the body of the response.
  When no response is obtained it fails with the exception of the HTTP library. Once a
  response has been received it fails exactly when the status is a failure status (400
  to 599) and returns nothing otherwise; a status from 200 to 299 is a success whatever
  the body says, and two responses with the same status give the same result. These are
  the only two ways it fails, it succeeds only on a response with a status outside 400
  to 599, and in every case it has sent exactly its one request.
\<close>

theorem update_a_record_fails_by_status_or_no_response:
  "(net (update_a_record_request slf d i t) = None
      \<longrightarrow> result (update_a_record net slf d i t) = Inl RequestException)
   \<and> (\<forall>resp. net (update_a_record_request slf d i t) = Some resp
      \<longrightarrow> result (update_a_record net slf d i t) =
            (if 400 \<le> status_code resp \<and> status_code resp < 600
             then Inl (HTTPError (status_code resp)) else Inr ()))
   \<and> (\<forall>resp. net (update_a_record_request slf d i t) = Some resp
        \<and> 200 \<le> status_code resp \<and> status_code resp < 300
      \<longrightarrow> result (update_a_record net slf d i t) = Inr ())
   \<and> (\<forall>resp resp'. net (update_a_record_request slf d i t) = Some resp
        \<and> net' (update_a_record_request slf d i t) = Some resp'
        \<and> status_code resp = status_code resp'
      \<longrightarrow> result (update_a_record net slf d i t) = result (update_a_record net' slf d i t))
   \<and> (result (update_a_record net slf d i t) = Inr ()
      \<longleftrightarrow> (\<exists>resp. net (update_a_record_request slf d i t) = Some resp
             \<and> \<not> (400 \<le> status_code resp \<and> status_code resp < 600)))
   \<and> (\<forall>e. result (update_a_record net slf d i t) = Inl e
      \<longrightarrow> (net (update_a_record_request slf d i t) = None \<and> e = RequestException)
        \<or> (\<exists>resp. net (update_a_record_request slf d i t) = Some resp
             \<and> 400 \<le> status_code resp \<and> status_code resp < 600
             \<and> e = HTTPError (status_code resp)))
   \<and> sent (update_a_record net slf d i t) = [update_a_record_request slf d i t]"
proof (cases "net (update_a_record_request slf d i t)")
  case None
  then show ?thesis
    by (simp add: update_a_record_def)
next
  case (Some resp)
  then show ?thesis
    by (auto simp: update_a_record_result raise_for_status_def)
qed

theorem update_a_record_fails_by_status_or_no_response_witness:
  "result (update_a_record (\<lambda>r. Some \<lparr>status_code = 200, content = None\<rparr>)
             (porkbun_connector example_args) ''example.com'' ''5.6.7.8'' None) = Inr ()
   \<and> result (update_a_record
             (\<lambda>r. Some \<lparr>status_code = 200,
                         content = Some (JObject [(''status'', JString ''ERROR'')])\<rparr>)
             (porkbun_connector example_args) ''example.com'' ''5.6.7.8'' None) = Inr ()
   \<and> result (update_a_record
             (\<lambda>r. Some \<lparr>status_code = 403,
                         content = Some (JObject [(''status'', JString ''SUCCESS'')])\<rparr>)
             (porkbun_connector example_args) ''example.com'' ''5.6.7.8'' None)
       = Inl (HTTPError 403)
   \<and> result (update_a_record no_response_net
             (porkbun_connector example_args) ''example.com'' ''5.6.7.8'' None)
       = Inl RequestException"
proof -
  let ?slf = "porkbun_connector example_args"
  let ?r1 = "\<lparr>status_code = 200, content = None\<rparr>"
  let ?r2 = "\<lparr>status_code = 200, content = Some (JObject [(''status'', JString ''ERROR'')])\<rparr>"
  let ?r3 = "\<lparr>status_code = 403, content = Some (JObject [(''status'', JString ''SUCCESS'')])\<rparr>"
  have a: "result (update_a_record (\<lambda>r. Some ?r1) ?slf ''example.com'' ''5.6.7.8'' None) = Inr ()"
    using update_a_record_fails_by_status_or_no_response
            [of "\<lambda>r. Some ?r1" ?slf "''example.com''" "''5.6.7.8''" None,
             THEN conjunct2, THEN conjunct1, rule_format, of ?r1]
    by simp
  have b: "result (update_a_record (\<lambda>r. Some ?r2) ?slf ''example.com'' ''5.6.7.8'' None) = Inr ()"
    using update_a_record_fails_by_status_or_no_response
            [of "\<lambda>r. Some ?r2" ?slf "''example.com''" "''5.6.7.8''" None,
             THEN conjunct2, THEN conjunct2, THEN conjunct1, rule_format, of ?r2]
    by simp
  have c: "result (update_a_record (\<lambda>r. Some ?r3) ?slf ''example.com'' ''5.6.7.8'' None)
             = Inl (HTTPError 403)"
    using update_a_record_fails_by_status_or_no_response
            [of "\<lambda>r. Some ?r3" ?slf "''example.com''" "''5.6.7.8''" None,
             THEN conjunct2, THEN conjunct1, rule_format, of ?r3]
    by simp
  have d: "result (update_a_record no_response_net ?slf ''example.com'' ''5.6.7.8'' None)
             = Inl RequestException"
    using update_a_record_fails_by_status_or_no_response
            [of no_response_net ?slf "''example.com''" "''5.6.7.8''" None,
             THEN conjunct1, rule_format]
    by (simp add: no_response_net_def)
  from a b c d show ?thesis by simp
qed

text \<open>
  Claim C9. Every client operation leaves the client as it found it: \<^verbatim>\<open>get_a_record\<close>
  and \<^verbatim>\<open>update_a_record\<close> leave the key, the secret and the timeout of the PorkBun
  client unchanged, \<^verbatim>\<open>get_current_ip\<close> leaves the timeout of the IPify client
  unchanged, and after a pass both clients are as they were constructed.
\<close>

theorem client_operations_keep_configuration:
  "self (get_a_record net pb d) = pb
   \<and> self (update_a_record net pb d i t) = pb
   \<and> self (get_current_ip net ipf) = ipf
   \<and> PorkBun.api_key (self (get_a_record net pb d)) = PorkBun.api_key pb
   \<and> PorkBun.api_secret (self (get_a_record net pb d)) = PorkBun.api_secret pb
   \<and> PorkBun.timeout (self (get_a_record net pb d)) = PorkBun.timeout pb
   \<and> PorkBun.api_key (self (update_a_record net pb d i t)) = PorkBun.api_key pb
   \<and> PorkBun.api_secret (self (update_a_record net pb d i t)) = PorkBun.api_secret pb
   \<and> PorkBun.timeout (self (update_a_record net pb d i t)) = PorkBun.timeout pb
   \<and> IPify.timeout (self (get_current_ip net ipf)) = IPify.timeout ipf
   \<and> porkbun_after (updater net a) = porkbun_connector a
   \<and> ipify_after (updater net a) = ipify_connector a"
  by (simp add: updater_connectors)

theorem client_operations_keep_configuration_witness:
  "self (get_a_record (\<lambda>r. ok JNull) (PorkBun_init ''key'' ''secret'' (Some 3) True)
        ''example.com'')
     = \<lparr>PorkBun.timeout = 3, api_key = ''key'', api_secret = ''secret''\<rparr>
   \<and> self (update_a_record (\<lambda>r. ok JNull) (PorkBun_init ''key'' ''secret'' (Some 3) True)
        ''example.com'' ''5.6.7.8'' (Some 300))
     = \<lparr>PorkBun.timeout = 3, api_key = ''key'', api_secret = ''secret''\<rparr>
   \<and> self (get_current_ip (\<lambda>r. ok JNull) (IPify_init None False)) = \<lparr>IPify.timeout = 10\<rparr>"
  using client_operations_keep_configuration
      [where net = "\<lambda>r. ok JNull" and pb = "PorkBun_init ''key'' ''secret'' (Some 3) True"
         and d = "''example.com''" and i = "''5.6.7.8''" and t = "Some 300"
         and ipf = "IPify_init None False"]
  by (simp add: PorkBun_init_def IPify_init_def)

end
